theory Spec2Isabelle
  imports Complex_Main "HOL-Library.AList"
begin

section \<open>Status payloads\<close>

text \<open>
  The remote platform answers a status query with a JSON document, which the Python
  client hands over as nested dicts, lists, strings, numbers, booleans and \<open>None\<close>.
  A dict is an association list read with \<open>map_of\<close> (the first binding of a key wins).
\<close>

datatype json =
    JNull
  | JBool bool
  | JNum real
  | JStr string
  | JArr "json list"
  | JObj "(string \<times> json) list"

type_synonym payload = "(string \<times> json) list"

text \<open>\<^verbatim>\<open>d.get(k, default)\<close> on a dict.\<close>

definition dict_get :: "payload \<Rightarrow> string \<Rightarrow> json \<Rightarrow> json" where
  "dict_get d k dflt = (case map_of d k of Some v \<Rightarrow> v | None \<Rightarrow> dflt)"

text \<open>
  The exceptions that can leave a wait: \<open>.get\<close> called on a value that is not a dict,
  \<open>time.sleep\<close> called with a negative length, and whatever the remote call raises.
\<close>

datatype error = AttributeError | ValueError | RemoteError string

text \<open>
  \<^verbatim>\<open>status.get("baseStatus", {}).get("state", status.get("state", "UNKNOWN"))\<close>:
  the nested state when \<open>baseStatus\<close> is an object that has one, the flat state
  otherwise, \<open>"UNKNOWN"\<close> when neither is there. A \<open>baseStatus\<close> that is present
  but is not an object has no \<open>.get\<close>.
\<close>

definition job_state :: "payload \<Rightarrow> error + json" where
  "job_state status =
     (case dict_get status ''baseStatus'' (JObj []) of
        JObj base \<Rightarrow>
          Inr (dict_get base ''state'' (dict_get status ''state'' (JStr ''UNKNOWN'')))
      | _ \<Rightarrow> Inl AttributeError)"

text \<open>
  \<^verbatim>\<open>run_info.get("scenarioRun", {}).get("result", {}).get("outcome")\<close>: \<open>None\<close>
  (here \<open>JNull\<close>) when the key is missing at any level.
\<close>

definition scenario_outcome :: "payload \<Rightarrow> error + json" where
  "scenario_outcome run_info =
     (case dict_get run_info ''scenarioRun'' (JObj []) of
        JObj scenario_run \<Rightarrow>
          (case dict_get scenario_run ''result'' (JObj []) of
             JObj result \<Rightarrow> Inr (dict_get result ''outcome'' JNull)
           | _ \<Rightarrow> Inl AttributeError)
      | _ \<Rightarrow> Inl AttributeError)"

section \<open>The world a wait runs in\<close>

text \<open>
  A wait reads the wall clock, queries the remote handle and sleeps. The world holds
  the clock (seconds, as an exact real number instead of a float) and the number of
  status queries answered so far. A remote handle is what the platform will answer to
  the k-th query, and how long that query takes.
\<close>

record world =
  now :: real
  polls :: nat

record handle =
  answer :: "nat \<Rightarrow> error + payload"
  latency :: "nat \<Rightarrow> real"

text \<open>\<^verbatim>\<open>time.time()\<close>\<close>

definition time_time :: "world \<Rightarrow> real" where
  "time_time w = now w"

text \<open>\<^verbatim>\<open>job.get_status()\<close> and \<^verbatim>\<open>run.get_info()\<close>: one round trip to the platform.\<close>

definition get_status :: "handle \<Rightarrow> world \<Rightarrow> (error + payload) \<times> world" where
  "get_status h w =
     (answer h (polls w), w\<lparr>now := now w + latency h (polls w), polls := Suc (polls w)\<rparr>)"

text \<open>\<^verbatim>\<open>time.sleep(secs)\<close>: a negative length raises \<open>ValueError\<close>.\<close>

definition time_sleep :: "int \<Rightarrow> world \<Rightarrow> error + world" where
  "time_sleep secs w =
     (if secs < 0 then Inl ValueError else Inr (w\<lparr>now := now w + of_int secs\<rparr>))"

section \<open>Rendering an integer\<close>

text \<open>\<^verbatim>\<open>str(n)\<close> for a Python int, as the f-strings of the timeout messages use it.\<close>

fun str_nat :: "nat \<Rightarrow> string" where
  "str_nat n =
     (if n < 10 then [''0123456789'' ! n]
      else str_nat (n div 10) @ [''0123456789'' ! (n mod 10)])"

declare str_nat.simps [simp del]

definition str_int :: "int \<Rightarrow> string" where
  "str_int i = (if i < 0 then ''-'' @ str_nat (nat (- i)) else str_nat (nat i))"

section \<open>The completion waiter\<close>

record wait_result =
  success :: bool
  status :: json
  duration :: real
  details :: json

record scenario_result = wait_result +
  outcome :: json

definition terminal_states :: "json list" where
  "terminal_states = [JStr ''DONE'', JStr ''FAILED'', JStr ''ABORTED'']"

text \<open>
  The body of \<^verbatim>\<open>while True:\<close> in \<open>wait_for_job\<close>. The loop has no bound of its
  own: it is left by a \<open>return\<close> or an exception only, so the model is a partial
  function and \<open>None\<close> stands for a loop that never ends.
\<close>

partial_function (option) wait_loop ::
  "handle \<Rightarrow> int \<Rightarrow> int \<Rightarrow> real \<Rightarrow> world \<Rightarrow> ((error + wait_result) \<times> world) option"
where
  "wait_loop job timeout poll_interval start_time w =
     (let elapsed = time_time w - start_time in
      if elapsed > of_int timeout then
        Some (Inr \<lparr>success = False, status = JStr ''TIMEOUT'', duration = elapsed,
                   details = JStr (''Job did not complete within '' @ str_int timeout @ '' seconds'')\<rparr>,
              w)
      else
        (case get_status job w of
           (Inl e, w1) \<Rightarrow> Some (Inl e, w1)
         | (Inr st, w1) \<Rightarrow>
             (case job_state st of
                Inl e \<Rightarrow> Some (Inl e, w1)
              | Inr state \<Rightarrow>
                  if state \<in> set terminal_states then
                    Some (Inr \<lparr>success = (state = JStr ''DONE''), status = state,
                               duration = elapsed, details = JObj st\<rparr>,
                          w1)
                  else
                    (case time_sleep poll_interval w1 of
                       Inl e \<Rightarrow> Some (Inl e, w1)
                     | Inr w2 \<Rightarrow> wait_loop job timeout poll_interval start_time w2))))"

definition wait_for_job ::
  "handle \<Rightarrow> int \<Rightarrow> int \<Rightarrow> world \<Rightarrow> ((error + wait_result) \<times> world) option"
where
  "wait_for_job job timeout poll_interval w =
     wait_loop job timeout poll_interval (time_time w) w"

section \<open>Waits on builds, recipes and scenarios\<close>

text \<open>
  The client library, as far as the helpers use it. \<open>get_project\<close>,
  \<open>get_dataset\<close>, \<open>get_recipe\<close> and \<open>get_scenario\<close> build local handles;
  \<open>build\<close> and \<open>run\<close> start the remote operation and may raise.
\<close>

record dataset_handle =
  build :: "string \<Rightarrow> error + handle"

record recipe_handle =
  recipe_run :: "error + handle"

record scenario_handle =
  scenario_run :: "error + handle"

record project_handle =
  get_dataset :: "string \<Rightarrow> dataset_handle"
  get_recipe :: "string \<Rightarrow> recipe_handle"
  get_scenario :: "string \<Rightarrow> scenario_handle"

record dss_client =
  get_project :: "string \<Rightarrow> project_handle"

text \<open>\<open>wait_for_job(job, timeout=timeout)\<close> leaves \<open>poll_interval\<close> at its default, 2.\<close>

definition build_and_wait ::
  "dss_client \<Rightarrow> string \<Rightarrow> string \<Rightarrow> string \<Rightarrow> int \<Rightarrow> world
     \<Rightarrow> ((error + wait_result) \<times> world) option"
where
  "build_and_wait client project_key dataset_name build_mode timeout w =
     (let project = get_project client project_key;
          dataset = get_dataset project dataset_name
      in case build dataset build_mode of
           Inl e \<Rightarrow> Some (Inl e, w)
         | Inr job \<Rightarrow> wait_for_job job timeout 2 w)"

definition run_recipe_and_wait ::
  "dss_client \<Rightarrow> string \<Rightarrow> string \<Rightarrow> int \<Rightarrow> world
     \<Rightarrow> ((error + wait_result) \<times> world) option"
where
  "run_recipe_and_wait client project_key recipe_name timeout w =
     (let project = get_project client project_key;
          recipe = get_recipe project recipe_name
      in case recipe_run recipe of
           Inl e \<Rightarrow> Some (Inl e, w)
         | Inr job \<Rightarrow> wait_for_job job timeout 2 w)"

text \<open>The body of \<^verbatim>\<open>while True:\<close> in \<open>run_scenario_and_wait\<close>.\<close>

partial_function (option) scenario_loop ::
  "handle \<Rightarrow> int \<Rightarrow> real \<Rightarrow> world \<Rightarrow> ((error + scenario_result) \<times> world) option"
where
  "scenario_loop run timeout start_time w =
     (let elapsed = time_time w - start_time in
      if elapsed > of_int timeout then
        Some (Inr \<lparr>success = False, status = JStr ''TIMEOUT'', duration = elapsed,
                   details = JStr (''Scenario did not complete within '' @ str_int timeout @ '' seconds''),
                   outcome = JNull\<rparr>,
              w)
      else
        (case get_status run w of
           (Inl e, w1) \<Rightarrow> Some (Inl e, w1)
         | (Inr run_info, w1) \<Rightarrow>
             (case scenario_outcome run_info of
                Inl e \<Rightarrow> Some (Inl e, w1)
              | Inr state \<Rightarrow>
                  if state \<noteq> JNull then
                    Some (Inr \<lparr>success = (state = JStr ''SUCCESS''), status = JStr ''DONE'',
                               duration = elapsed, details = JObj run_info,
                               outcome = state\<rparr>,
                          w1)
                  else
                    (case time_sleep 2 w1 of
                       Inl e \<Rightarrow> Some (Inl e, w1)
                     | Inr w2 \<Rightarrow> scenario_loop run timeout start_time w2))))"

definition run_scenario_and_wait ::
  "dss_client \<Rightarrow> string \<Rightarrow> string \<Rightarrow> int \<Rightarrow> world
     \<Rightarrow> ((error + scenario_result) \<times> world) option"
where
  "run_scenario_and_wait client project_key scenario_id timeout w =
     (let project = get_project client project_key;
          scenario = get_scenario project scenario_id
      in case scenario_run scenario of
           Inl e \<Rightarrow> Some (Inl e, w)
         | Inr run \<Rightarrow> scenario_loop run timeout (time_time w) w)"

section \<open>Rounds of a wait\<close>

text \<open>
  The world at the start of round \<open>j\<close> of a polling loop that began in \<open>w\<close>, when
  every earlier round queried the handle and slept \<open>secs\<close> seconds; and the clock
  reading of that round, counted from the start of the wait.
\<close>

primrec round_start :: "handle \<Rightarrow> int \<Rightarrow> world \<Rightarrow> nat \<Rightarrow> world" where
  "round_start h secs w 0 = w"
| "round_start h secs w (Suc j) =
     (let v = snd (get_status h (round_start h secs w j))
      in v\<lparr>now := now v + of_int secs\<rparr>)"

definition elapsed_at :: "handle \<Rightarrow> int \<Rightarrow> world \<Rightarrow> nat \<Rightarrow> real" where
  "elapsed_at h secs w j = now (round_start h secs w j) - now w"

text \<open>
  What a round observes: the state a job status carries, the outcome a scenario run
  carries. A round is idle when the query is answered and the answer is not terminal.
\<close>

definition observed_state :: "handle \<Rightarrow> nat \<Rightarrow> (error + json)" where
  "observed_state h k =
     (case answer h k of Inl e \<Rightarrow> Inl e | Inr st \<Rightarrow> job_state st)"

definition observed_outcome :: "handle \<Rightarrow> nat \<Rightarrow> (error + json)" where
  "observed_outcome h k =
     (case answer h k of Inl e \<Rightarrow> Inl e | Inr info \<Rightarrow> scenario_outcome info)"

definition job_idle :: "handle \<Rightarrow> nat \<Rightarrow> bool" where
  "job_idle h k =
     (case observed_state h k of Inl e \<Rightarrow> False | Inr s \<Rightarrow> s \<notin> set terminal_states)"

definition scenario_idle :: "handle \<Rightarrow> nat \<Rightarrow> bool" where
  "scenario_idle h k = (observed_outcome h k = Inr JNull)"


text \<open>A clock that does not run backwards: no query takes negative time.\<close>

definition monotone_clock :: "handle \<Rightarrow> bool" where
  "monotone_clock h = (\<forall>k. 0 \<le> latency h k)"

section \<open>The execution session\<close>

text \<open>
  Values of the execution namespace: the ones the snippets below compute with, and the
  objects the server puts there (modules, the client), which stay opaque.
\<close>

datatype pyval = PNone | PInt int | PStr string | PModule string | PClient string string

text \<open>A Python dict keeps its keys in insertion order; rebinding a key keeps its place.\<close>

type_synonym namespace = "(string \<times> pyval) list"

text \<open>
  An exception in flight: \<^verbatim>\<open>type(e).__name__\<close>, \<^verbatim>\<open>str(e)\<close>, and whether
  \<^verbatim>\<open>except Exception\<close> catches it (\<open>SystemExit\<close>, \<open>KeyboardInterrupt\<close> and
  \<open>GeneratorExit\<close> derive from \<open>BaseException\<close> only).
\<close>

record raised =
  exc_name :: string
  exc_str :: string
  exc_is_Exception :: bool

text \<open>
  What \<^verbatim>\<open>exec(code, execution_globals)\<close> does, for code that comes to an end: the text
  written to \<open>sys.stdout\<close>, the exception that ended it if any, and the namespace it
  leaves (the dict is mutated in place, so the bindings made before an exception stay).
\<close>

record exec_result =
  printed :: string
  failure :: "raised option"
  bindings :: namespace

text \<open>
  The interpreter is not code of the server: \<open>exec\<close> and
  \<^verbatim>\<open>traceback.format_exc()\<close> are parameters of the model.
\<close>

record 'c runtime =
  exec :: "'c \<Rightarrow> namespace \<Rightarrow> exec_result"
  format_exc :: "raised \<Rightarrow> string"

text \<open>
  The module state of \<open>server.py\<close>: the two environment variables, the flag computed
  from them at import, the client singleton and the persistent namespace.
\<close>

record server =
  dataiku_url :: "string option"
  dataiku_api_key :: "string option"
  credentials_missing :: bool
  client_singleton :: "pyval option"
  execution_globals :: namespace

text \<open>\<^verbatim>\<open>not v\<close> for the result of \<^verbatim>\<open>os.environ.get\<close>: \<open>None\<close> and the empty string.\<close>

definition falsy :: "string option \<Rightarrow> bool" where
  "falsy v = (case v of None \<Rightarrow> True | Some s \<Rightarrow> s = [])"

text \<open>Importing \<open>server.py\<close> with the given values of the two variables.\<close>

definition load_server :: "string option \<Rightarrow> string option \<Rightarrow> server" where
  "load_server url api_key =
     \<lparr>dataiku_url = url,
      dataiku_api_key = api_key,
      credentials_missing = (falsy url \<or> falsy api_key),
      client_singleton = None,
      execution_globals =
        [(''__builtins__'', PModule ''builtins''),
         (''helpers'', PModule ''helpers''),
         (''jobs'', PModule ''helpers.jobs''),
         (''inspection'', PModule ''helpers.inspection''),
         (''search'', PModule ''helpers.search''),
         (''export'', PModule ''helpers.export'')]\<rparr>"

text \<open>\<open>get_client\<close> of \<open>client.py\<close>.\<close>

definition client_error :: raised where
  "client_error =
     \<lparr>exc_name = ''ValueError'',
      exc_str = ''DATAIKU_URL and DATAIKU_API_KEY must be set in environment or .env file'',
      exc_is_Exception = True\<rparr>"

definition get_client :: "server \<Rightarrow> raised + pyval" where
  "get_client s =
     (case (dataiku_url s, dataiku_api_key s) of
        (Some url, Some api_key) \<Rightarrow>
          if url = [] \<or> api_key = [] then Inl client_error else Inr (PClient url api_key)
      | _ \<Rightarrow> Inl client_error)"

definition get_dataiku_client :: "server \<Rightarrow> (raised + pyval) \<times> server" where
  "get_dataiku_client s =
     (case client_singleton s of
        Some c \<Rightarrow> (Inr c, s)
      | None \<Rightarrow>
          (case get_client s of
             Inl e \<Rightarrow> (Inl e, s)
           | Inr c \<Rightarrow> (Inr c, s\<lparr>client_singleton := Some c\<rparr>)))"

text \<open>The text returned when the credentials are missing, after \<open>dedent\<close> and \<open>strip\<close>.\<close>

definition credentials_help :: string where
  \<open>credentials_help =
     ''ERROR: Dataiku credentials not configured.\<newline>\<newline>'' @
     ''Please add DATAIKU_URL and DATAIKU_API_KEY to your MCP server config.\<newline>\<newline>'' @
     ''Edit ~/.claude/mcp_settings.json and add to the "dataiku" server:\<newline>'' @
     ''  "env": {\<newline>'' @
     ''    "DATAIKU_URL": "https://your-instance.dataiku.com",\<newline>'' @
     ''    "DATAIKU_API_KEY": "your-api-key"\<newline>'' @
     ''  }\<newline>\<newline>'' @
     ''Then restart Claude Code.''\<close>

text \<open>
  \<open>execute_python\<close>. \<open>Inr\<close> is the string handed back to the caller, \<open>Inl\<close> an
  exception that leaves the function. Only the \<open>exec\<close> call is inside the \<open>try\<close>,
  and the handler is \<^verbatim>\<open>except Exception\<close>.
\<close>

definition execute_python :: "'c runtime \<Rightarrow> 'c \<Rightarrow> server \<Rightarrow> (raised + string) \<times> server" where
  "execute_python rt code s =
     (if credentials_missing s then (Inr credentials_help, s)
      else
        (case get_dataiku_client s of
           (Inl e, s1) \<Rightarrow> (Inl e, s1)
         | (Inr c, s1) \<Rightarrow>
             (let r = exec rt code (AList.update ''client'' c (execution_globals s1));
                  s2 = s1\<lparr>execution_globals := bindings r\<rparr>
              in case failure r of
                   None \<Rightarrow>
                     (Inr (if printed r \<noteq> [] then printed r
                           else ''(executed successfully, no output)''), s2)
                 | Some e \<Rightarrow>
                     if exc_is_Exception e then
                       (Inr (printed r @ ''\<newline>Error: '' @ exc_name e @ '': '' @ exc_str e
                               @ ''\<newline>\<newline>'' @ format_exc rt e), s2)
                     else (Inl e, s2))))"

section \<open>A fragment of Python\<close>

text \<open>
  Snippets made of assignments, \<open>print\<close> calls and \<open>raise\<close> statements, enough to
  run the calls the specification names. \<open>LenGlobals\<close> is the expression
  \<^verbatim>\<open>len(globals())\<close>; a \<open>Name\<close> is a variable (not the name of a builtin).
\<close>

datatype pyexpr = IntLit int | StrLit string | Name string | LenGlobals

datatype exc_class = Exc_RuntimeError | Exc_ValueError | Exc_SystemExit | Exc_KeyboardInterrupt

datatype pystmt = Assign string pyexpr | Print pyexpr | Raise exc_class string

fun class_name :: "exc_class \<Rightarrow> string" where
  "class_name Exc_RuntimeError = ''RuntimeError''"
| "class_name Exc_ValueError = ''ValueError''"
| "class_name Exc_SystemExit = ''SystemExit''"
| "class_name Exc_KeyboardInterrupt = ''KeyboardInterrupt''"

fun derives_Exception :: "exc_class \<Rightarrow> bool" where
  "derives_Exception Exc_RuntimeError = True"
| "derives_Exception Exc_ValueError = True"
| "derives_Exception Exc_SystemExit = False"
| "derives_Exception Exc_KeyboardInterrupt = False"

definition name_error :: "string \<Rightarrow> raised" where
  "name_error x =
     \<lparr>exc_name = ''NameError'',
      exc_str = ''name '' @ [CHR 0x27] @ x @ [CHR 0x27] @ '' is not defined'',
      exc_is_Exception = True\<rparr>"

fun eval_expr :: "namespace \<Rightarrow> pyexpr \<Rightarrow> raised + pyval" where
  "eval_expr g (IntLit i) = Inr (PInt i)"
| "eval_expr g (StrLit t) = Inr (PStr t)"
| "eval_expr g (Name x) = (case map_of g x of Some v \<Rightarrow> Inr v | None \<Rightarrow> Inl (name_error x))"
| "eval_expr g LenGlobals = Inr (PInt (int (length g)))"

text \<open>What \<open>print\<close> writes for a value; \<open>render\<close> is the interpreter's text for an opaque object.\<close>

fun py_str :: "(pyval \<Rightarrow> string) \<Rightarrow> pyval \<Rightarrow> string" where
  "py_str render PNone = ''None''"
| "py_str render (PInt i) = str_int i"
| "py_str render (PStr t) = t"
| "py_str render v = render v"

fun exec_stmts :: "(pyval \<Rightarrow> string) \<Rightarrow> pystmt list \<Rightarrow> string \<Rightarrow> namespace \<Rightarrow> exec_result" where
  "exec_stmts render [] out g = \<lparr>printed = out, failure = None, bindings = g\<rparr>"
| "exec_stmts render (Assign x e # rest) out g =
     (case eval_expr g e of
        Inl ex \<Rightarrow> \<lparr>printed = out, failure = Some ex, bindings = g\<rparr>
      | Inr v \<Rightarrow> exec_stmts render rest out (AList.update x v g))"
| "exec_stmts render (Print e # rest) out g =
     (case eval_expr g e of
        Inl ex \<Rightarrow> \<lparr>printed = out, failure = Some ex, bindings = g\<rparr>
      | Inr v \<Rightarrow> exec_stmts render rest (out @ py_str render v @ ''\<newline>'') g)"
| "exec_stmts render (Raise c msg # rest) out g =
     \<lparr>printed = out,
      failure = Some \<lparr>exc_name = class_name c, exc_str = msg, exc_is_Exception = derives_Exception c\<rparr>,
      bindings = g\<rparr>"

definition py_exec :: "(pyval \<Rightarrow> string) \<Rightarrow> pystmt list \<Rightarrow> namespace \<Rightarrow> exec_result" where
  "py_exec render code g = exec_stmts render code [] g"

definition py_runtime :: "(pyval \<Rightarrow> string) \<Rightarrow> (raised \<Rightarrow> string) \<Rightarrow> pystmt list runtime" where
  "py_runtime render tb = \<lparr>exec = py_exec render, format_exc = tb\<rparr>"






text \<open>A concrete interpreter setting for running examples.\<close>

definition demo_render :: "pyval \<Rightarrow> string" where
  "demo_render v = ''<object>''"

definition demo_traceback :: "raised \<Rightarrow> string" where
  "demo_traceback e =
     ''Traceback (most recent call last):\<newline>'' @ exc_name e @ '': '' @ exc_str e @ ''\<newline>''"

definition demo_runtime :: "pystmt list runtime" where
  "demo_runtime = py_runtime demo_render demo_traceback"

definition demo_server :: server where
  "demo_server = load_server (Some ''https://dss.example.com'') (Some ''secret'')"


text \<open>The server is serving: the flag is clear and the variables are still set.\<close>

definition ready :: "server \<Rightarrow> bool" where
  "ready s = (\<not> credentials_missing s \<and> \<not> falsy (dataiku_url s) \<and> \<not> falsy (dataiku_api_key s))"


section \<open>Calls in sequence\<close>

text \<open>
  The client a serving session holds, or creates at its first call; what a call hands
  back for a given run of \<open>exec\<close>; and the outputs of two calls made one after the
  other on the same session.
\<close>

definition session_client :: "server \<Rightarrow> pyval" where
  "session_client s =
     (case client_singleton s of
        Some c \<Rightarrow> c
      | None \<Rightarrow> (case get_client s of Inr c \<Rightarrow> c | Inl e \<Rightarrow> PNone))"

definition reply :: "'c runtime \<Rightarrow> exec_result \<Rightarrow> raised + string" where
  "reply rt r =
     (case failure r of
        None \<Rightarrow> Inr (if printed r \<noteq> [] then printed r else ''(executed successfully, no output)'')
      | Some e \<Rightarrow>
          if exc_is_Exception e then
            Inr (printed r @ ''\<newline>Error: '' @ exc_name e @ '': '' @ exc_str e
                   @ ''\<newline>\<newline>'' @ format_exc rt e)
          else Inl e)"


section \<open>Sample handles\<close>

text \<open>
  Concrete remote operations to run the waits on: a job that fails at its third status
  query, a job that never leaves \<open>RUNNING\<close> (answering at once, or after five
  seconds), a job whose status carries no state at all, and scenario runs whose outcome
  appears at the second query or never.
\<close>

definition failing_job :: handle where
  "failing_job =
     \<lparr>answer = (\<lambda>k. if k < 2 then Inr [(''baseStatus'', JObj [(''state'', JStr ''RUNNING'')])]
                     else Inr [(''baseStatus'', JObj [(''state'', JStr ''FAILED'')])]),
      latency = (\<lambda>k. 1 / 2)\<rparr>"

definition steady_job :: handle where
  "steady_job = \<lparr>answer = (\<lambda>k. Inr [(''state'', JStr ''RUNNING'')]), latency = (\<lambda>k. 0)\<rparr>"

definition slow_job :: handle where
  "slow_job = \<lparr>answer = (\<lambda>k. Inr [(''state'', JStr ''RUNNING'')]), latency = (\<lambda>k. 5)\<rparr>"


definition failed_run :: handle where
  "failed_run =
     \<lparr>answer = (\<lambda>k. if k < 1 then Inr [(''scenarioRun'', JObj [(''runId'', JStr ''r1'')])]
                     else Inr [(''scenarioRun'',
                                JObj [(''result'', JObj [(''outcome'', JStr ''FAILED'')])])]),
      latency = (\<lambda>k. 1 / 2)\<rparr>"


definition sample_client :: "handle \<Rightarrow> dss_client" where
  "sample_client h =
     \<lparr>get_project = (\<lambda>project_key.
        \<lparr>get_dataset = (\<lambda>name. \<lparr>build = (\<lambda>build_mode. Inr h)\<rparr>),
         get_recipe = (\<lambda>name. \<lparr>recipe_run = Inr h\<rparr>),
         get_scenario = (\<lambda>scenario_id. \<lparr>scenario_run = Inr h\<rparr>)\<rparr>)\<rparr>"

definition epoch :: world where
  "epoch = \<lparr>now = 0, polls = 0\<rparr>"

section \<open>Rounds and clock readings\<close>

lemma polls_round_start: "polls (round_start h secs w j) = polls w + j"
  by (induction j) (simp_all add: Let_def get_status_def)

lemma elapsed_at_0: "elapsed_at h secs w 0 = 0"
  by (simp add: elapsed_at_def)

lemma elapsed_at_Suc:
  "elapsed_at h secs w (Suc j) = elapsed_at h secs w j + latency h (polls w + j) + of_int secs"
  by (simp add: elapsed_at_def Let_def get_status_def polls_round_start)

lemma elapsed_at_lower:
  assumes "monotone_clock h" "0 \<le> secs"
  shows "of_nat j * of_int secs \<le> elapsed_at h secs w j"
proof (induction j)
  case 0
  then show ?case by (simp add: elapsed_at_0)
next
  case (Suc j)
  have "0 \<le> latency h (polls w + j)" using assms(1) by (simp add: monotone_clock_def)
  with Suc show ?case by (simp add: elapsed_at_Suc algebra_simps)
qed

lemma elapsed_at_exceeds:
  assumes "monotone_clock h" "0 < secs"
  shows "\<exists>m. of_int T < elapsed_at h secs w m"
proof -
  let ?m = "Suc (nat T)"
  have "real_of_int T < of_nat ?m" by linarith
  also have "\<dots> \<le> of_nat ?m * real_of_int secs"
  proof -
    have "1 \<le> real_of_int secs" using assms(2) by linarith
    then show ?thesis by (metis mult.right_neutral mult_left_mono of_nat_0_le_iff)
  qed
  also have "\<dots> \<le> elapsed_at h secs w ?m"
    using assms by (intro elapsed_at_lower) auto
  finally show ?thesis by blast
qed

text \<open>The first round whose clock reading is over the timeout.\<close>

lemma first_late_round:
  assumes "monotone_clock h" "0 < secs"
  obtains n where "of_int T < elapsed_at h secs w n"
    and "\<forall>j<n. elapsed_at h secs w j \<le> of_int T"
proof -
  define n where "n = (LEAST m. of_int T < elapsed_at h secs w m)"
  from elapsed_at_exceeds[OF assms] have "of_int T < elapsed_at h secs w n"
    unfolding n_def by (rule exE) (rule LeastI)
  moreover have "\<forall>j<n. elapsed_at h secs w j \<le> of_int T"
  proof (intro allI impI)
    fix j assume "j < n"
    then have "\<not> of_int T < elapsed_at h secs w j"
      unfolding n_def by (rule not_less_Least)
    then show "elapsed_at h secs w j \<le> of_int T" by simp
  qed
  ultimately show thesis by (rule that)
qed

section \<open>The job loop, round by round\<close>

lemma wait_loop_timeout:
  assumes "now w - t0 > of_int T"
  shows "wait_loop job T p t0 w =
     Some (Inr \<lparr>success = False, status = JStr ''TIMEOUT'', duration = now w - t0,
                details = JStr (''Job did not complete within '' @ str_int T @ '' seconds'')\<rparr>, w)"
  using assms by (subst wait_loop.simps) (simp add: time_time_def)

lemma wait_loop_terminal:
  assumes "\<not> now w - t0 > of_int T" "answer job (polls w) = Inr st" "job_state st = Inr s"
    "s \<in> set terminal_states"
  shows "wait_loop job T p t0 w =
     Some (Inr \<lparr>success = (s = JStr ''DONE''), status = s, duration = now w - t0,
                details = JObj st\<rparr>,
           snd (get_status job w))"
  using assms by (subst wait_loop.simps) (simp add: time_time_def get_status_def)

lemma wait_loop_idle:
  assumes "\<not> now w - t0 > of_int T" "job_idle job (polls w)" "0 \<le> p"
  shows "wait_loop job T p t0 w = wait_loop job T p t0 (round_start job p w 1)"
  using assms
  by (subst wait_loop.simps)
     (auto simp: time_time_def get_status_def job_idle_def observed_state_def time_sleep_def
           split: sum.splits)

lemma wait_loop_skip:
  assumes "0 \<le> p \<or> n = 0"
    and "\<forall>j<n. now (round_start job p w j) - t0 \<le> of_int T \<and> job_idle job (polls w + j)"
  shows "wait_loop job T p t0 w = wait_loop job T p t0 (round_start job p w n)"
  using assms
proof (induction n)
  case 0
  then show ?case by simp
next
  case (Suc n)
  let ?v = "round_start job p w n"
  from Suc.prems have p: "0 \<le> p" by simp
  from Suc.prems have "wait_loop job T p t0 w = wait_loop job T p t0 ?v"
    by (intro Suc.IH) auto
  also have "\<dots> = wait_loop job T p t0 (round_start job p ?v 1)"
  proof (rule wait_loop_idle)
    show "\<not> now ?v - t0 > of_int T" using Suc.prems(2) by (simp add: not_less)
    show "job_idle job (polls ?v)" using Suc.prems(2) by (simp add: polls_round_start)
    show "0 \<le> p" by (fact p)
  qed
  also have "round_start job p ?v 1 = round_start job p w (Suc n)" by simp
  finally show ?case .
qed

lemma wait_for_job_skip:
  assumes "0 \<le> p \<or> n = 0"
    and "\<forall>j<n. elapsed_at job p w j \<le> of_int T \<and> job_idle job (polls w + j)"
  shows "wait_for_job job T p w = wait_loop job T p (now w) (round_start job p w n)"
  unfolding wait_for_job_def time_time_def
  using assms by (intro wait_loop_skip) (auto simp: elapsed_at_def)

lemma wait_for_job_times_out:
  assumes "0 \<le> p \<or> n = 0"
    and "\<forall>j<n. elapsed_at job p w j \<le> of_int T \<and> job_idle job (polls w + j)"
    and "of_int T < elapsed_at job p w n"
  shows "wait_for_job job T p w =
     Some (Inr \<lparr>success = False, status = JStr ''TIMEOUT'', duration = elapsed_at job p w n,
                details = JStr (''Job did not complete within '' @ str_int T @ '' seconds'')\<rparr>,
           round_start job p w n)"
  using assms(3)
  by (simp add: wait_for_job_skip[OF assms(1,2)] wait_loop_timeout elapsed_at_def)

lemma wait_for_job_finishes:
  assumes "0 \<le> p \<or> n = 0"
    and "\<forall>j<n. elapsed_at job p w j \<le> of_int T \<and> job_idle job (polls w + j)"
    and "elapsed_at job p w n \<le> of_int T"
    and "answer job (polls w + n) = Inr st" "job_state st = Inr s" "s \<in> set terminal_states"
  shows "wait_for_job job T p w =
     Some (Inr \<lparr>success = (s = JStr ''DONE''), status = s, duration = elapsed_at job p w n,
                details = JObj st\<rparr>,
           snd (get_status job (round_start job p w n)))"
  using assms(3-)
  by (simp add: wait_for_job_skip[OF assms(1,2)] wait_loop_terminal elapsed_at_def
        polls_round_start not_less)


section \<open>Jobs that reach a terminal state\<close>




section \<open>Jobs that run into the timeout\<close>

lemma elapsed_at_instant:
  assumes "\<forall>k. latency h k = 0"
  shows "elapsed_at h secs w j = of_nat j * of_int secs"
  using assms by (induction j) (simp_all add: elapsed_at_0 elapsed_at_Suc algebra_simps)

lemma steady_job_idle: "job_idle steady_job k"
  by (simp add: job_idle_def observed_state_def steady_job_def job_state_def dict_get_def
        terminal_states_def)

lemma str_int_600: "str_int 600 = ''600''"
  by (simp add: str_int_def str_nat.simps)

text \<open>
  C3, as stated, fails on the upper bound. With the default parameters, a job that
  never finishes and status queries that take no time, the round at 600 seconds is not
  over the timeout (the test is strict), so the loop polls and sleeps once more and
  reports 602. With a status query that takes five seconds, timeout 3 and poll
  interval 2, the second round already reads 7.
\<close>

theorem wait_for_job_duration_counterexample:
  "map_option fst (wait_for_job steady_job 600 2 epoch)
     = Some (Inr \<lparr>success = False, status = JStr ''TIMEOUT'', duration = 602,
                  details = JStr ''Job did not complete within 600 seconds''\<rparr>)
   \<and> \<not> ((602::real) < of_int 600 + of_int 2)
   \<and> map_option fst (wait_for_job slow_job 3 2 epoch)
     = Some (Inr \<lparr>success = False, status = JStr ''TIMEOUT'', duration = 7,
                  details = JStr ''Job did not complete within 3 seconds''\<rparr>)
   \<and> \<not> ((7::real) < of_int 3 + of_int 2)"
proof -
  have lat: "\<forall>k. latency steady_job k = 0" by (simp add: steady_job_def)
  have el: "elapsed_at steady_job 2 epoch j = of_nat j * 2" for j
    using elapsed_at_instant[OF lat, of 2 epoch j] by simp
  have a: "(0::int) \<le> 2 \<or> (301::nat) = 0" by simp
  have b: "\<forall>j<301. elapsed_at steady_job 2 epoch j \<le> of_int 600
             \<and> job_idle steady_job (polls epoch + j)"
    by (simp add: el steady_job_idle)
  have c: "of_int 600 < elapsed_at steady_job 2 epoch 301" by (simp add: el)
  have first: "map_option fst (wait_for_job steady_job 600 2 epoch)
     = Some (Inr \<lparr>success = False, status = JStr ''TIMEOUT'', duration = 602,
                  details = JStr ''Job did not complete within 600 seconds''\<rparr>)"
    by (simp add: wait_for_job_times_out[OF a b c] el str_int_600)
  have idle: "job_idle slow_job k" for k
    by (simp add: job_idle_def observed_state_def slow_job_def job_state_def dict_get_def
          terminal_states_def)
  have a': "(0::int) \<le> 2 \<or> Suc 0 = 0" by simp
  have b': "\<forall>j<Suc 0. elapsed_at slow_job 2 epoch j \<le> of_int 3
             \<and> job_idle slow_job (polls epoch + j)"
    by (simp add: elapsed_at_0 idle)
  have d: "elapsed_at slow_job 2 epoch (Suc 0) = 7"
    by (simp add: elapsed_at_0 elapsed_at_Suc slow_job_def)
  have c': "of_int 3 < elapsed_at slow_job 2 epoch (Suc 0)" by (simp add: d)
  have three: "str_int 3 = ''3''" by (simp add: str_int_def str_nat.simps)
  have second: "map_option fst (wait_for_job slow_job 3 2 epoch)
     = Some (Inr \<lparr>success = False, status = JStr ''TIMEOUT'', duration = 7,
                  details = JStr ''Job did not complete within 3 seconds''\<rparr>)"
    by (simp add: wait_for_job_times_out[OF a' b' c'] d three)
  from first second show ?thesis by simp
qed

text \<open>
  C3, amended. With a positive poll interval, a timeout that is not negative and a
  clock that does not run backwards, a job that is not terminal at any round within the
  timeout makes \<open>wait_for_job\<close> return the \<open>TIMEOUT\<close> record with success false.
  The reported duration is over the timeout (the test is strict) and at most the
  timeout plus the poll interval plus the time the last status query took.
\<close>

theorem wait_for_job_timeout_result:
  assumes "0 < poll_interval" and "0 \<le> timeout" and "monotone_clock job"
    and "\<forall>j. elapsed_at job poll_interval w j \<le> of_int timeout \<longrightarrow> job_idle job (polls w + j)"
  shows "\<exists>n r w'. wait_for_job job timeout poll_interval w = Some (Inr r, w')
           \<and> status r = JStr ''TIMEOUT'' \<and> \<not> success r
           \<and> duration r = elapsed_at job poll_interval w (Suc n)
           \<and> of_int timeout < duration r
           \<and> duration r \<le> of_int timeout + of_int poll_interval + latency job (polls w + n)"
proof -
  obtain m where late: "of_int timeout < elapsed_at job poll_interval w m"
    and early: "\<forall>j<m. elapsed_at job poll_interval w j \<le> of_int timeout"
    using first_late_round[OF assms(3) assms(1)] by blast
  have "m \<noteq> 0" using late assms(2) by (auto simp: elapsed_at_0 intro: ccontr)
  then obtain n where m: "m = Suc n" by (cases m) auto
  have skip: "0 \<le> poll_interval \<or> m = 0" using assms(1) by simp
  have idle: "\<forall>j<m. elapsed_at job poll_interval w j \<le> of_int timeout
                \<and> job_idle job (polls w + j)"
    using early assms(4) by blast
  have "elapsed_at job poll_interval w n \<le> of_int timeout" using early m by simp
  then have upper: "elapsed_at job poll_interval w (Suc n)
      \<le> of_int timeout + of_int poll_interval + latency job (polls w + n)"
    by (simp add: elapsed_at_Suc)
  show ?thesis
    using late upper unfolding m
    by (intro exI[of _ n]) (simp add: wait_for_job_times_out[OF skip idle late, unfolded m])
qed

theorem wait_for_job_timeout_result_witness:
  "(0::int) < 2 \<and> (0::int) \<le> 600 \<and> monotone_clock steady_job
   \<and> (\<forall>j. job_idle steady_job (polls epoch + j))
   \<and> (\<exists>n r w'. wait_for_job steady_job 600 2 epoch = Some (Inr r, w')
           \<and> status r = JStr ''TIMEOUT'' \<and> \<not> success r
           \<and> duration r = elapsed_at steady_job 2 epoch (Suc n)
           \<and> of_int 600 < duration r
           \<and> duration r \<le> of_int 600 + of_int 2 + latency steady_job (polls epoch + n))"
proof -
  have h1: "(0::int) < 2" and h2: "(0::int) \<le> 600" by simp_all
  have h3: "monotone_clock steady_job" by (simp add: monotone_clock_def steady_job_def)
  have h4: "\<forall>j. elapsed_at steady_job 2 epoch j \<le> of_int 600 \<longrightarrow> job_idle steady_job (polls epoch + j)"
    by (simp add: steady_job_idle)
  from wait_for_job_timeout_result[OF h1 h2 h3 h4] h3 show ?thesis
    by (simp add: steady_job_idle)
qed

section \<open>Statuses without a state\<close>







section \<open>The scenario loop, round by round\<close>


lemma scenario_loop_outcome:
  assumes "\<not> now w - t0 > of_int T" "answer run (polls w) = Inr info"
    "scenario_outcome info = Inr oc" "oc \<noteq> JNull"
  shows "scenario_loop run T t0 w =
     Some (Inr \<lparr>success = (oc = JStr ''SUCCESS''), status = JStr ''DONE'',
                duration = now w - t0, details = JObj info, outcome = oc\<rparr>,
           snd (get_status run w))"
  using assms by (subst scenario_loop.simps) (simp add: time_time_def get_status_def)

lemma scenario_loop_idle:
  assumes "\<not> now w - t0 > of_int T" "scenario_idle run (polls w)"
  shows "scenario_loop run T t0 w = scenario_loop run T t0 (round_start run 2 w 1)"
  using assms
  by (subst scenario_loop.simps)
     (auto simp: time_time_def get_status_def scenario_idle_def observed_outcome_def
           time_sleep_def split: sum.splits)

lemma scenario_loop_skip:
  assumes "\<forall>j<n. now (round_start run 2 w j) - t0 \<le> of_int T \<and> scenario_idle run (polls w + j)"
  shows "scenario_loop run T t0 w = scenario_loop run T t0 (round_start run 2 w n)"
  using assms
proof (induction n)
  case 0
  then show ?case by simp
next
  case (Suc n)
  let ?v = "round_start run 2 w n"
  from Suc.prems have "scenario_loop run T t0 w = scenario_loop run T t0 ?v"
    by (intro Suc.IH) auto
  also have "\<dots> = scenario_loop run T t0 (round_start run 2 ?v 1)"
  proof (rule scenario_loop_idle)
    show "\<not> now ?v - t0 > of_int T" using Suc.prems by (simp add: not_less)
    show "scenario_idle run (polls ?v)" using Suc.prems by (simp add: polls_round_start)
  qed
  also have "round_start run 2 ?v 1 = round_start run 2 w (Suc n)" by simp
  finally show ?case .
qed

lemma run_scenario_and_wait_skip:
  assumes "scenario_run (get_scenario (get_project client project_key) scenario_id) = Inr run"
    and "\<forall>j<n. elapsed_at run 2 w j \<le> of_int T \<and> scenario_idle run (polls w + j)"
  shows "run_scenario_and_wait client project_key scenario_id T w =
           scenario_loop run T (now w) (round_start run 2 w n)"
proof -
  have "scenario_loop run T (now w) w = scenario_loop run T (now w) (round_start run 2 w n)"
    using assms(2) by (intro scenario_loop_skip) (auto simp: elapsed_at_def)
  then show ?thesis
    using assms(1) by (simp add: run_scenario_and_wait_def time_time_def)
qed


lemma run_scenario_and_wait_finishes:
  assumes "scenario_run (get_scenario (get_project client project_key) scenario_id) = Inr run"
    and "\<forall>j<n. elapsed_at run 2 w j \<le> of_int T \<and> scenario_idle run (polls w + j)"
    and "elapsed_at run 2 w n \<le> of_int T"
    and "answer run (polls w + n) = Inr info" "scenario_outcome info = Inr oc" "oc \<noteq> JNull"
  shows "run_scenario_and_wait client project_key scenario_id T w =
     Some (Inr \<lparr>success = (oc = JStr ''SUCCESS''), status = JStr ''DONE'',
                duration = elapsed_at run 2 w n, details = JObj info, outcome = oc\<rparr>,
           snd (get_status run (round_start run 2 w n)))"
  using assms(3-)
  by (simp add: run_scenario_and_wait_skip[OF assms(1,2)] scenario_loop_outcome elapsed_at_def
        polls_round_start not_less)


section \<open>Scenario runs\<close>

lemma failed_run_round0: "scenario_idle failed_run 0"
  by (simp add: scenario_idle_def observed_outcome_def failed_run_def scenario_outcome_def
        dict_get_def)


lemma sample_client_run:
  "scenario_run (get_scenario (get_project (sample_client h) project_key) scenario_id) = Inr h"
  by (simp add: sample_client_def)



text \<open>
  C10. A scenario wait that observes an outcome reports the status \<open>DONE\<close> whatever
  the outcome is: a run whose outcome is not \<open>SUCCESS\<close> comes back with status
  \<open>DONE\<close> and success false, the failure showing in \<open>outcome\<close> and \<open>success\<close> only.
\<close>

theorem run_scenario_and_wait_status_done:
  assumes "scenario_run (get_scenario (get_project client project_key) scenario_id) = Inr run"
    and "\<forall>j<n. elapsed_at run 2 w j \<le> of_int timeout \<and> scenario_idle run (polls w + j)"
    and "elapsed_at run 2 w n \<le> of_int timeout"
    and "answer run (polls w + n) = Inr info"
    and "scenario_outcome info = Inr oc"
    and "oc \<noteq> JNull"
  shows "\<exists>r w'. run_scenario_and_wait client project_key scenario_id timeout w = Some (Inr r, w')
           \<and> status r = JStr ''DONE'' \<and> outcome r = oc \<and> details r = JObj info
           \<and> (oc \<noteq> JStr ''SUCCESS'' \<longrightarrow> \<not> success r)"
  by (simp add: run_scenario_and_wait_finishes[OF assms])

theorem run_scenario_and_wait_status_done_witness:
  "scenario_run (get_scenario (get_project (sample_client failed_run) ''P'') ''S'') = Inr failed_run
   \<and> elapsed_at failed_run 2 epoch 0 \<le> of_int 600 \<and> scenario_idle failed_run (polls epoch + 0)
   \<and> elapsed_at failed_run 2 epoch (Suc 0) \<le> of_int 600
   \<and> answer failed_run (polls epoch + Suc 0)
        = Inr [(''scenarioRun'', JObj [(''result'', JObj [(''outcome'', JStr ''FAILED'')])])]
   \<and> scenario_outcome [(''scenarioRun'', JObj [(''result'', JObj [(''outcome'', JStr ''FAILED'')])])]
        = Inr (JStr ''FAILED'')
   \<and> JStr ''FAILED'' \<noteq> JNull
   \<and> (\<exists>r w'. run_scenario_and_wait (sample_client failed_run) ''P'' ''S'' 600 epoch
                 = Some (Inr r, w')
          \<and> status r = JStr ''DONE'' \<and> outcome r = JStr ''FAILED'' \<and> \<not> success r)"
proof -
  let ?info = "[(''scenarioRun'', JObj [(''result'', JObj [(''outcome'', JStr ''FAILED'')])])]"
  have a0: "scenario_run (get_scenario (get_project (sample_client failed_run) ''P'') ''S'')
      = Inr failed_run" by (rule sample_client_run)
  have a1: "elapsed_at failed_run 2 epoch 0 \<le> of_int 600" by (simp add: elapsed_at_0)
  have a2: "scenario_idle failed_run (polls epoch + 0)" by (simp add: epoch_def failed_run_round0)
  have a3: "elapsed_at failed_run 2 epoch (Suc 0) \<le> of_int 600"
    by (simp add: elapsed_at_0 elapsed_at_Suc failed_run_def)
  have a4: "answer failed_run (polls epoch + Suc 0) = Inr ?info"
    by (simp add: failed_run_def epoch_def)
  have a5: "scenario_outcome ?info = Inr (JStr ''FAILED'')"
    by (simp add: scenario_outcome_def dict_get_def)
  have a6: "JStr ''FAILED'' \<noteq> JNull" by simp
  have rounds: "\<forall>j<Suc 0. elapsed_at failed_run 2 epoch j \<le> of_int 600
      \<and> scenario_idle failed_run (polls epoch + j)"
    using a1 a2 by simp
  from run_scenario_and_wait_status_done[OF a0 rounds a3 a4 a5 a6]
  have "\<exists>r w'. run_scenario_and_wait (sample_client failed_run) ''P'' ''S'' 600 epoch
                 = Some (Inr r, w')
          \<and> status r = JStr ''DONE'' \<and> outcome r = JStr ''FAILED'' \<and> \<not> success r"
    by auto
  with a0 a1 a2 a3 a4 a5 a6 show ?thesis by blast
qed


section \<open>Success and status of every result\<close>

lemma wait_loop_success_iff:
  assumes "wait_loop job timeout poll_interval start_time w = Some y"
  shows "\<forall>r w'. y = (Inr r, w') \<longrightarrow> (success r \<longleftrightarrow> status r = JStr ''DONE'')"
  by (rule wait_loop.raw_induct[OF _ assms])
     (auto simp: Let_def split: if_splits prod.splits sum.splits)

lemma scenario_loop_success_iff:
  assumes "scenario_loop run timeout start_time w = Some y"
  shows "\<forall>r w'. y = (Inr r, w') \<longrightarrow> (success r \<longleftrightarrow> outcome r = JStr ''SUCCESS'')"
  by (rule scenario_loop.raw_induct[OF _ assms])
     (auto simp: Let_def split: if_splits prod.splits sum.splits)

lemma scenario_loop_timeout_fails:
  assumes "scenario_loop run timeout start_time w = Some y"
  shows "\<forall>r w'. y = (Inr r, w') \<longrightarrow> status r = JStr ''TIMEOUT'' \<longrightarrow> \<not> success r"
  by (rule scenario_loop.raw_induct[OF _ assms])
     (auto simp: Let_def split: if_splits prod.splits sum.splits)

lemma failing_job_result:
  "wait_for_job failing_job 600 2 epoch =
     Some (Inr \<lparr>success = False, status = JStr ''FAILED'', duration = 5,
                details = JObj [(''baseStatus'', JObj [(''state'', JStr ''FAILED'')])]\<rparr>,
           \<lparr>now = 11 / 2, polls = 3\<rparr>)"
proof -
  have a: "(0::int) \<le> 2 \<or> Suc (Suc 0) = 0" by simp
  have b: "\<forall>j<Suc (Suc 0). elapsed_at failing_job 2 epoch j \<le> of_int 600
          \<and> job_idle failing_job (polls epoch + j)"
    by (simp add: All_less_Suc elapsed_at_0 elapsed_at_Suc failing_job_def epoch_def
          job_idle_def observed_state_def job_state_def dict_get_def terminal_states_def)
  have c: "elapsed_at failing_job 2 epoch (Suc (Suc 0)) \<le> of_int 600"
    by (simp add: elapsed_at_0 elapsed_at_Suc failing_job_def epoch_def)
  have d: "answer failing_job (polls epoch + Suc (Suc 0))
        = Inr [(''baseStatus'', JObj [(''state'', JStr ''FAILED'')])]"
    by (simp add: failing_job_def epoch_def)
  have e: "job_state [(''baseStatus'', JObj [(''state'', JStr ''FAILED'')])] = Inr (JStr ''FAILED'')"
    by (simp add: job_state_def dict_get_def)
  have f: "JStr ''FAILED'' \<in> set terminal_states" by (simp add: terminal_states_def)
  show ?thesis
    by (simp add: wait_for_job_finishes[OF a b c d e f] elapsed_at_0 elapsed_at_Suc
          get_status_def Let_def)
       (simp add: failing_job_def epoch_def)
qed

lemma failed_run_result:
  "run_scenario_and_wait (sample_client failed_run) ''P'' ''S'' 600 epoch =
     Some (Inr \<lparr>success = False, status = JStr ''DONE'', duration = 5 / 2,
                details = JObj [(''scenarioRun'',
                                 JObj [(''result'', JObj [(''outcome'', JStr ''FAILED'')])])],
                outcome = JStr ''FAILED''\<rparr>,
           \<lparr>now = 3, polls = 2\<rparr>)"
proof -
  let ?info = "[(''scenarioRun'', JObj [(''result'', JObj [(''outcome'', JStr ''FAILED'')])])]"
  have a: "scenario_run (get_scenario (get_project (sample_client failed_run) ''P'') ''S'')
      = Inr failed_run" by (rule sample_client_run)
  have b: "\<forall>j<Suc 0. elapsed_at failed_run 2 epoch j \<le> of_int 600
      \<and> scenario_idle failed_run (polls epoch + j)"
    by (simp add: elapsed_at_0 epoch_def failed_run_round0)
  have c: "elapsed_at failed_run 2 epoch (Suc 0) \<le> of_int 600"
    by (simp add: elapsed_at_0 elapsed_at_Suc failed_run_def)
  have d: "answer failed_run (polls epoch + Suc 0) = Inr ?info"
    by (simp add: failed_run_def epoch_def)
  have e: "scenario_outcome ?info = Inr (JStr ''FAILED'')"
    by (simp add: scenario_outcome_def dict_get_def)
  have f: "JStr ''FAILED'' \<noteq> JNull" by simp
  show ?thesis
    by (simp add: run_scenario_and_wait_finishes[OF a b c d e f] elapsed_at_0 elapsed_at_Suc
          get_status_def Let_def)
       (simp add: failed_run_def epoch_def)
qed

text \<open>
  C4. Every record a wait returns has success true exactly when its status is
  \<open>DONE\<close> (jobs, builds and recipes) or exactly when its outcome is \<open>SUCCESS\<close>
  (scenario runs); in particular no \<open>TIMEOUT\<close>, \<open>FAILED\<close> or \<open>ABORTED\<close> record
  has success true.
\<close>

theorem wait_result_success_iff:
  "(wait_for_job job timeout poll_interval w = Some (Inr r, w')
      \<longrightarrow> (success r \<longleftrightarrow> status r = JStr ''DONE''))
   \<and> (build_and_wait client project_key dataset_name build_mode timeout w = Some (Inr r, w')
      \<longrightarrow> (success r \<longleftrightarrow> status r = JStr ''DONE''))
   \<and> (run_recipe_and_wait client project_key recipe_name timeout w = Some (Inr r, w')
      \<longrightarrow> (success r \<longleftrightarrow> status r = JStr ''DONE''))
   \<and> (run_scenario_and_wait client project_key scenario_id timeout w = Some (Inr sr, w')
      \<longrightarrow> (success sr \<longleftrightarrow> outcome sr = JStr ''SUCCESS'')
          \<and> (status sr = JStr ''TIMEOUT'' \<longrightarrow> \<not> success sr))"
proof (intro conjI impI)
  assume "wait_for_job job timeout poll_interval w = Some (Inr r, w')"
  then show "success r \<longleftrightarrow> status r = JStr ''DONE''"
    unfolding wait_for_job_def by (blast dest: wait_loop_success_iff)
next
  assume "build_and_wait client project_key dataset_name build_mode timeout w = Some (Inr r, w')"
  then show "success r \<longleftrightarrow> status r = JStr ''DONE''"
    unfolding build_and_wait_def wait_for_job_def
    by (auto simp: Let_def split: sum.splits dest: wait_loop_success_iff)
next
  assume "run_recipe_and_wait client project_key recipe_name timeout w = Some (Inr r, w')"
  then show "success r \<longleftrightarrow> status r = JStr ''DONE''"
    unfolding run_recipe_and_wait_def wait_for_job_def
    by (auto simp: Let_def split: sum.splits dest: wait_loop_success_iff)
next
  assume a: "run_scenario_and_wait client project_key scenario_id timeout w = Some (Inr sr, w')"
  then show "success sr \<longleftrightarrow> outcome sr = JStr ''SUCCESS''"
    unfolding run_scenario_and_wait_def
    by (auto simp: Let_def split: sum.splits dest: scenario_loop_success_iff)
  assume "status sr = JStr ''TIMEOUT''"
  with a show "\<not> success sr"
    unfolding run_scenario_and_wait_def
    by (auto simp: Let_def split: sum.splits dest: scenario_loop_timeout_fails)
qed


lemma failing_job_build:
  "build_and_wait (sample_client failing_job) ''P'' ''orders'' ''RECURSIVE_BUILD'' 600 epoch
     = wait_for_job failing_job 600 2 epoch"
  "run_recipe_and_wait (sample_client failing_job) ''P'' ''compute_orders'' 600 epoch
     = wait_for_job failing_job 600 2 epoch"
  by (simp_all add: build_and_wait_def run_recipe_and_wait_def sample_client_def)

theorem wait_result_success_iff_witness:
  "wait_for_job failing_job 600 2 epoch =
     Some (Inr \<lparr>success = False, status = JStr ''FAILED'', duration = 5,
                details = JObj [(''baseStatus'', JObj [(''state'', JStr ''FAILED'')])]\<rparr>,
           \<lparr>now = 11 / 2, polls = 3\<rparr>)
   \<and> build_and_wait (sample_client failing_job) ''P'' ''orders'' ''RECURSIVE_BUILD'' 600 epoch =
     Some (Inr \<lparr>success = False, status = JStr ''FAILED'', duration = 5,
                details = JObj [(''baseStatus'', JObj [(''state'', JStr ''FAILED'')])]\<rparr>,
           \<lparr>now = 11 / 2, polls = 3\<rparr>)
   \<and> run_recipe_and_wait (sample_client failing_job) ''P'' ''compute_orders'' 600 epoch =
     Some (Inr \<lparr>success = False, status = JStr ''FAILED'', duration = 5,
                details = JObj [(''baseStatus'', JObj [(''state'', JStr ''FAILED'')])]\<rparr>,
           \<lparr>now = 11 / 2, polls = 3\<rparr>)
   \<and> (success \<lparr>success = False, status = JStr ''FAILED'', duration = 5,
                details = JObj [(''baseStatus'', JObj [(''state'', JStr ''FAILED'')])]\<rparr>
        \<longleftrightarrow> status \<lparr>success = False, status = JStr ''FAILED'', duration = 5,
                details = JObj [(''baseStatus'', JObj [(''state'', JStr ''FAILED'')])]\<rparr>
              = JStr ''DONE'')
   \<and> run_scenario_and_wait (sample_client failed_run) ''P'' ''S'' 600 epoch =
     Some (Inr \<lparr>success = False, status = JStr ''DONE'', duration = 5 / 2,
                details = JObj [(''scenarioRun'',
                                 JObj [(''result'', JObj [(''outcome'', JStr ''FAILED'')])])],
                outcome = JStr ''FAILED''\<rparr>,
           \<lparr>now = 3, polls = 2\<rparr>)
   \<and> (success \<lparr>success = False, status = JStr ''DONE'', duration = 5 / 2,
                details = JObj [(''scenarioRun'',
                                 JObj [(''result'', JObj [(''outcome'', JStr ''FAILED'')])])],
                outcome = JStr ''FAILED''\<rparr>
        \<longleftrightarrow> outcome \<lparr>success = False, status = JStr ''DONE'', duration = 5 / 2,
                details = JObj [(''scenarioRun'',
                                 JObj [(''result'', JObj [(''outcome'', JStr ''FAILED'')])])],
                outcome = JStr ''FAILED''\<rparr>
              = JStr ''SUCCESS'')"
proof -
  let ?r = "\<lparr>success = False, status = JStr ''FAILED'', duration = 5,
                details = JObj [(''baseStatus'', JObj [(''state'', JStr ''FAILED'')])]\<rparr>"
  let ?sr = "\<lparr>success = False, status = JStr ''DONE'', duration = 5 / 2,
                details = JObj [(''scenarioRun'',
                                 JObj [(''result'', JObj [(''outcome'', JStr ''FAILED'')])])],
                outcome = JStr ''FAILED''\<rparr>"
  note job = wait_result_success_iff[where job = failing_job and timeout = 600
      and poll_interval = 2 and w = epoch and r = ?r and w' = "\<lparr>now = 11 / 2, polls = 3\<rparr>",
      THEN conjunct1, rule_format, OF failing_job_result]
  note scen = wait_result_success_iff[where client = "sample_client failed_run"
      and project_key = "''P''" and scenario_id = "''S''" and timeout = 600 and w = epoch
      and sr = ?sr and w' = "\<lparr>now = 3, polls = 2\<rparr>",
      THEN conjunct2, THEN conjunct2, THEN conjunct2, rule_format, OF failed_run_result]
  have c1: "success ?r \<longleftrightarrow> status ?r = JStr ''DONE''" by (rule job)
  have c2: "success ?sr \<longleftrightarrow> outcome ?sr = JStr ''SUCCESS''" by (rule scen[THEN conjunct1])
  show ?thesis
    unfolding failing_job_build
    by (intro conjI failing_job_result failed_run_result c1 c2)
qed


section \<open>One call of the execution session\<close>

lemma execute_python_missing:
  assumes "credentials_missing s"
  shows "execute_python rt code s = (Inr credentials_help, s)"
  using assms by (simp add: execute_python_def)


lemma get_dataiku_client_ready:
  assumes "ready s"
  shows "get_dataiku_client s = (Inr (session_client s), s\<lparr>client_singleton := Some (session_client s)\<rparr>)"
  using assms
  by (cases s)
     (auto simp: ready_def get_dataiku_client_def session_client_def get_client_def falsy_def
           split: option.splits)

lemma execute_python_serving:
  assumes "\<not> credentials_missing s" and "get_dataiku_client s = (Inr c, s1)"
  shows "execute_python rt code s =
           (reply rt (exec rt code (AList.update ''client'' c (execution_globals s))),
            s1\<lparr>execution_globals :=
                 bindings (exec rt code (AList.update ''client'' c (execution_globals s)))\<rparr>)"
    and "client_singleton s1 = Some c" and "\<not> credentials_missing s1"
    and "execution_globals s1 = execution_globals s"
proof -
  from assms(2) have s1: "execution_globals s1 = execution_globals s"
    "client_singleton s1 = Some c" "credentials_missing s1 = credentials_missing s"
    by (auto simp: get_dataiku_client_def split: option.splits sum.splits)
  show "client_singleton s1 = Some c" "\<not> credentials_missing s1"
    "execution_globals s1 = execution_globals s"
    using s1 assms(1) by simp_all
  show "execute_python rt code s =
           (reply rt (exec rt code (AList.update ''client'' c (execution_globals s))),
            s1\<lparr>execution_globals :=
                 bindings (exec rt code (AList.update ''client'' c (execution_globals s)))\<rparr>)"
    using assms s1
    by (simp add: execute_python_def reply_def Let_def split: option.splits)
qed


lemma execute_python_ready:
  assumes "ready s"
  shows "execute_python rt code s =
           (reply rt (exec rt code (AList.update ''client'' (session_client s) (execution_globals s))),
            s\<lparr>client_singleton := Some (session_client s),
              execution_globals :=
                 bindings (exec rt code
                   (AList.update ''client'' (session_client s) (execution_globals s)))\<rparr>)"
proof -
  from assms have m: "\<not> credentials_missing s" by (simp add: ready_def)
  show ?thesis
    by (simp add: execute_python_serving(1)[OF m get_dataiku_client_ready[OF assms]])
qed

lemma ready_after:
  assumes "ready s"
  shows "ready (snd (execute_python rt code s))"
    and "session_client (snd (execute_python rt code s)) = session_client s"
  using assms
  by (simp_all add: execute_python_ready) (simp_all add: ready_def session_client_def)

lemma ready_demo_server: "ready demo_server"
  by (simp add: ready_def demo_server_def load_server_def falsy_def)


section \<open>Missing credentials\<close>

text \<open>
  C5. When the flag computed at import says the credentials are missing, every call
  returns the instructional text as an ordinary result, whatever the code and whatever
  the interpreter would do with it, and leaves the session as it was: \<open>exec\<close> is
  not consulted, the namespace is untouched and no client is created. A server loaded
  without the URL or without the key is in that state, with no client.
\<close>

theorem execute_python_credentials_missing:
  "(credentials_missing s \<longrightarrow> execute_python rt code s = (Inr credentials_help, s))
   \<and> (falsy url \<or> falsy api_key \<longrightarrow>
        execute_python rt code (load_server url api_key)
          = (Inr credentials_help, load_server url api_key)
        \<and> client_singleton (snd (execute_python rt code (load_server url api_key))) = None)"
  by (auto simp: execute_python_missing load_server_def)

theorem execute_python_credentials_missing_witness:
  "credentials_missing (load_server None (Some ''secret''))
   \<and> execute_python demo_runtime [Print (IntLit 1)] (load_server None (Some ''secret''))
       = (Inr credentials_help, load_server None (Some ''secret''))
   \<and> falsy None
   \<and> client_singleton
        (snd (execute_python demo_runtime [Print (IntLit 1)] (load_server None (Some ''secret''))))
       = None"
proof -
  have h1: "credentials_missing (load_server None (Some ''secret''))"
    by (simp add: load_server_def falsy_def)
  have h2: "falsy None" by (simp add: falsy_def)
  note t = execute_python_credentials_missing[where s = "load_server None (Some ''secret'')"
      and rt = demo_runtime and code = "[Print (IntLit 1)]" and url = None
      and api_key = "Some ''secret''"]
  from t h1 h2 show ?thesis by (simp add: load_server_def)
qed

section \<open>The namespace persists\<close>

lemma str_int_1: "str_int 1 = ''1''"
  by (simp add: str_int_def str_nat.simps)

text \<open>
  C7. On a serving session, \<open>x = 1\<close> followed by \<open>print(x)\<close> returns the text
  \<open>1\<close> (and the newline \<open>print\<close> ends it with): the second call runs on the
  namespace the first call left, in which \<open>x\<close> is bound to 1. This holds for any
  runtime: the namespace handed to \<open>exec\<close> in a call is the one the previous call
  left, with \<open>client\<close> bound again.
\<close>

theorem execute_python_namespace_persists:
  assumes "ready s"
  shows "(\<exists>s1 s2.
            execute_python (py_runtime render tb) [Assign ''x'' (IntLit 1)] s
              = (Inr ''(executed successfully, no output)'', s1)
            \<and> map_of (execution_globals s1) ''x'' = Some (PInt 1)
            \<and> execute_python (py_runtime render tb) [Print (Name ''x'')] s1
              = (Inr ''1\<newline>'', s2))
       \<and> fst (execute_python rt second (snd (execute_python rt first s)))
           = reply rt (exec rt second
               (AList.update ''client'' (session_client s)
                  (bindings (exec rt first
                     (AList.update ''client'' (session_client s) (execution_globals s))))))"
proof -
  note r1 = ready_after[OF assms]
  have gen: "fst (execute_python rt second (snd (execute_python rt first s)))
           = reply rt (exec rt second
               (AList.update ''client'' (session_client s)
                  (bindings (exec rt first
                     (AList.update ''client'' (session_client s) (execution_globals s))))))"
    for rt :: "'b runtime" and first second
    by (simp add: execute_python_ready[OF ready_after(1)[OF assms]] ready_after(2)[OF assms])
       (simp add: execute_python_ready[OF assms])
  let ?rt = "py_runtime render tb"
  obtain s1 where s1: "s1 = snd (execute_python ?rt [Assign ''x'' (IntLit 1)] s)" by simp
  obtain s2 where s2: "s2 = snd (execute_python ?rt [Print (Name ''x'')] s1)" by simp
  have a: "execute_python ?rt [Assign ''x'' (IntLit 1)] s
              = (Inr ''(executed successfully, no output)'', s1)"
    unfolding s1
    by (simp add: execute_python_ready[OF assms] reply_def py_runtime_def py_exec_def)
  have b: "map_of (execution_globals s1) ''x'' = Some (PInt 1)"
    unfolding s1
    by (simp add: execute_python_ready[OF assms] py_runtime_def py_exec_def update_conv')
  have rs1: "ready s1" unfolding s1 by (rule ready_after(1)[OF assms])
  have c: "execute_python ?rt [Print (Name ''x'')] s1 = (Inr ''1\<newline>'', s2)"
    unfolding s2 using b
    by (simp add: execute_python_ready[OF rs1] reply_def py_runtime_def py_exec_def
          update_conv' str_int_1)
  from a b c have first: "\<exists>s1 s2.
            execute_python ?rt [Assign ''x'' (IntLit 1)] s
              = (Inr ''(executed successfully, no output)'', s1)
            \<and> map_of (execution_globals s1) ''x'' = Some (PInt 1)
            \<and> execute_python ?rt [Print (Name ''x'')] s1 = (Inr ''1\<newline>'', s2)"
    by blast
  show ?thesis by (rule conjI[OF first gen])
qed

theorem execute_python_namespace_persists_witness:
  "ready demo_server
   \<and> (\<exists>s1 s2.
         execute_python demo_runtime [Assign ''x'' (IntLit 1)] demo_server
           = (Inr ''(executed successfully, no output)'', s1)
         \<and> map_of (execution_globals s1) ''x'' = Some (PInt 1)
         \<and> execute_python demo_runtime [Print (Name ''x'')] s1 = (Inr ''1\<newline>'', s2))"
  using execute_python_namespace_persists[OF ready_demo_server,
      where render = demo_render and tb = demo_traceback, THEN conjunct1] ready_demo_server
  by (simp add: demo_runtime_def)


section \<open>Failures of the executed code\<close>







section \<open>Snippets confined to their variables\<close>






section \<open>Order of two calls\<close>












end
